theory Spec2Isabelle
  imports Complex_Main
begin

section \<open>JavaScript values as the request client sees them\<close>

text \<open>
  A decoded JSON body. Numbers carry the value of the decoded double as a rational
  (only whether it is zero matters to this code; \<open>JSON.parse\<close> never yields NaN).
  An object is the list of its own properties; \<open>JSON.parse\<close> keeps one entry per key.
\<close>

datatype json =
    JNull
  | JBool bool
  | JNum rat
  | JStr string
  | JArr "json list"
  | JObj "(string \<times> json) list"

text \<open>A JavaScript value read from a property: \<open>None\<close> is \<open>undefined\<close>.\<close>

type_synonym jsval = "json option"

text \<open>
  What a \<open>throw\<close> carries. \<open>ApiError\<close> is the \<open>Error\<close> built at lines 310-323 of
  \<open>api-client.ts\<close> (message, \<open>response.status\<close>, \<open>response.data\<close>); \<open>TypeError\<close> and
  \<open>SyntaxError\<close> are raised by the runtime with its own message text; \<open>DOMException\<close>
  (name, message) is what the browser's own interfaces raise, an \<open>Error\<close> instance as well;
  \<open>ThrownValue\<close> is a thrown value that is not an \<open>Error\<close> instance.
\<close>

datatype thrown =
    ApiError string nat json
  | TypeError string
  | SyntaxError string
  | DOMException string string
  | ThrownValue json

fun error_message :: "thrown \<Rightarrow> string option" where
  "error_message (ApiError m _ _) = Some m"
| "error_message (TypeError m) = Some m"
| "error_message (SyntaxError m) = Some m"
| "error_message (DOMException _ m) = Some m"
| "error_message (ThrownValue _) = None"

text \<open>Truthiness (\<open>ToBoolean\<close>): what \<open>if (v)\<close>, \<open>!v\<close> and \<open>v || w\<close> test.\<close>

fun truthy :: "jsval \<Rightarrow> bool" where
  "truthy None = False"
| "truthy (Some JNull) = False"
| "truthy (Some (JBool b)) = b"
| "truthy (Some (JNum n)) = (n \<noteq> 0)"
| "truthy (Some (JStr s)) = (s \<noteq> [])"
| "truthy (Some (JArr _)) = True"
| "truthy (Some (JObj _)) = True"

text \<open>\<open>a || b\<close>: the left operand when it is truthy, the right one otherwise.\<close>

definition or_js :: "jsval \<Rightarrow> jsval \<Rightarrow> jsval" where
  "or_js a b = (if truthy a then a else b)"

text \<open>
  \<open>v.k\<close> for a value \<open>v\<close> that is not \<open>null\<close>, and a key (\<open>message\<close>, \<open>error\<close>, \<open>data\<close>)
  that no prototype defines: an object's own property, \<open>undefined\<close> on a primitive or an
  array. Reading a property of \<open>null\<close> throws; the callers below branch on it first.
\<close>

fun get_prop :: "json \<Rightarrow> string \<Rightarrow> jsval" where
  "get_prop (JObj kvs) k = map_of kvs k"
| "get_prop _ k = None"

text \<open>\<open>v?.k\<close>: \<open>undefined\<close> when \<open>v\<close> is \<open>undefined\<close> or \<open>null\<close>, \<open>v.k\<close> otherwise.\<close>

fun opt_prop :: "jsval \<Rightarrow> string \<Rightarrow> jsval" where
  "opt_prop None k = None"
| "opt_prop (Some JNull) k = None"
| "opt_prop (Some v) k = get_prop v k"

fun typeof_string :: "jsval \<Rightarrow> bool" where
  "typeof_string (Some (JStr _)) = True"
| "typeof_string _ = False"

text \<open>\<open>typeof v === 'object'\<close> holds for objects, arrays and \<open>null\<close>.\<close>

fun typeof_object :: "jsval \<Rightarrow> bool" where
  "typeof_object (Some JNull) = True"
| "typeof_object (Some (JArr _)) = True"
| "typeof_object (Some (JObj _)) = True"
| "typeof_object _ = False"

text \<open>The message of the \<open>TypeError\<close> raised on reading property \<open>p\<close> of \<open>null\<close>, in V8's wording.\<close>

definition null_read_message :: "string \<Rightarrow> string" where
  "null_read_message p =
     ''Cannot read properties of null (reading '' @ [CHR 0x27] @ p @ [CHR 0x27] @ '')''"

text \<open>A number in a template literal: its decimal digits.\<close>

definition digit_char :: "nat \<Rightarrow> char" where
  "digit_char d = ''0123456789'' ! d"

fun decimal :: "nat \<Rightarrow> string" where
  "decimal n = (if n < 10 then [digit_char n] else decimal (n div 10) @ [digit_char (n mod 10)])"

section \<open>ApiClient.request\<close>

text \<open>
  What \<open>fetch\<close> resolves to. \<open>json_result\<close> is the outcome of \<open>response.json()\<close>:
  \<open>Inl e\<close> when the promise rejects with \<open>e\<close> (the body is not JSON), \<open>Inr v\<close> the decoded value.
\<close>

record response =
  status :: nat
  statusText :: string
  json_result :: "thrown + json"

text \<open>\<open>response.ok\<close>: the status is in the range 200-299.\<close>

definition ok :: "response \<Rightarrow> bool" where
  "ok r = (200 \<le> status r \<and> status r \<le> 299)"

text \<open>The template literal \<open>HTTP ${response.status}: ${response.statusText}\<close>.\<close>

definition http_phrase :: "nat \<Rightarrow> string \<Rightarrow> string" where
  "http_phrase st stt = ''HTTP '' @ decimal st @ '': '' @ stt"

text \<open>Lines 292-295: the first assignment of \<open>errorMessage\<close>.\<close>

definition errorMessage_outer :: "nat \<Rightarrow> string \<Rightarrow> json \<Rightarrow> jsval" where
  "errorMessage_outer st stt errorData =
     or_js
       (or_js
          (or_js (get_prop errorData ''message'')
                 (opt_prop (get_prop errorData ''error'') ''message''))
          (if typeof_string (get_prop errorData ''error'') then get_prop errorData ''error''
           else Some JNull))
       (Some (JStr (http_phrase st stt)))"

text \<open>Lines 298-302: the \<open>data\<close> wrapper, given the value \<open>errorMessage\<close> holds so far.\<close>

definition errorMessage_data :: "jsval \<Rightarrow> json \<Rightarrow> jsval" where
  "errorMessage_data errorMessage errorData =
     (case get_prop errorData ''data'' of
        None \<Rightarrow> errorMessage
      | Some d \<Rightarrow>
          if truthy (Some d) \<and> typeof_object (Some d)
          then or_js (or_js (get_prop d ''message'') (opt_prop (get_prop d ''error'') ''message''))
                     errorMessage
          else errorMessage)"

text \<open>Lines 305-307, and the string \<open>new Error(errorMessage)\<close> then takes as its message.\<close>

definition errorMessage_final :: "nat \<Rightarrow> string \<Rightarrow> jsval \<Rightarrow> string" where
  "errorMessage_final st stt errorMessage =
     (case errorMessage of Some (JStr s) \<Rightarrow> s | _ \<Rightarrow> http_phrase st stt)"

definition normalize_message :: "nat \<Rightarrow> string \<Rightarrow> json \<Rightarrow> string" where
  "normalize_message st stt errorData =
     errorMessage_final st stt
       (errorMessage_data (errorMessage_outer st stt errorData) errorData)"

text \<open>
  Lines 287-324, the branch \<open>!response.ok\<close>: what the client throws.
  \<open>response.json().catch(() => ({}))\<close> turns a rejected decode into the empty object;
  a body that decodes to \<open>null\<close> makes the first read, \<open>errorData.message\<close>, throw.
\<close>

definition request_not_ok :: "response \<Rightarrow> thrown" where
  "request_not_ok r =
     (let errorData = (case json_result r of Inl e \<Rightarrow> JObj [] | Inr v \<Rightarrow> v) in
      if errorData = JNull then TypeError (null_read_message ''message'')
      else ApiError (normalize_message (status r) (statusText r) errorData) (status r) errorData)"

text \<open>
  Lines 326-333, the branch \<open>response.ok\<close>: a rejected decode is rethrown, a \<open>null\<close> body
  makes \<open>data.data\<close> throw, and otherwise \<open>if (data.data) return data.data; return data\<close>.
\<close>

definition request_ok :: "response \<Rightarrow> thrown + json" where
  "request_ok r =
     (case json_result r of
        Inl e \<Rightarrow> Inl e
      | Inr data \<Rightarrow>
          if data = JNull then Inl (TypeError (null_read_message ''data''))
          else (case get_prop data ''data'' of
                  None \<Rightarrow> Inr data
                | Some d \<Rightarrow> if truthy (Some d) then Inr d else Inr data))"

text \<open>
  Lines 284-337: \<open>fetch\<close> either rejects (\<open>Inl\<close>) or resolves to a response; the outer
  \<open>catch\<close> logs and rethrows, so every error leaves unchanged.
\<close>

definition request :: "thrown + response \<Rightarrow> thrown + json" where
  "request fetched =
     (case fetched of
        Inl e \<Rightarrow> Inl e
      | Inr r \<Rightarrow> if \<not> ok r then Inl (request_not_ok r) else request_ok r)"

section \<open>The request's configuration\<close>

text \<open>
  The fields of \<open>RequestInit\<close> the client's callers set. A field is \<open>None\<close> when the
  object has no such key; \<open>headers\<close> is a plain object from header names to values.
\<close>

record request_init =
  http_method :: "string option"
  body :: "string option"
  headers :: "(string \<rightharpoonup> string) option"

text \<open>\<open>...h\<close> inside an object literal: the own properties of \<open>h\<close>, none for \<open>undefined\<close>.\<close>

definition spread :: "(string \<rightharpoonup> string) option \<Rightarrow> (string \<rightharpoonup> string)" where
  "spread h = (case h of None \<Rightarrow> Map.empty | Some m \<Rightarrow> m)"

text \<open>
  Lines 268-274. The literal lists \<open>headers\<close> first and \<open>...options\<close> after it, and a
  later key replaces an earlier one: each field of \<open>config\<close> is the one of \<open>options\<close>
  when \<open>options\<close> has it.
\<close>

definition initial_config :: "request_init \<Rightarrow> request_init" where
  "initial_config options =
     (let merged = [''Content-Type'' \<mapsto> ''application/json''] ++ spread (headers options)
      in \<lparr> http_method = http_method options,
           body = body options,
           headers = (case headers options of None \<Rightarrow> Some merged | Some h \<Rightarrow> Some h) \<rparr>)"

text \<open>Lines 277-282: \<open>if (this.accessToken)\<close> holds for a token that is neither \<open>null\<close> nor empty.\<close>

definition request_config :: "string option \<Rightarrow> request_init \<Rightarrow> request_init" where
  "request_config accessToken options =
     (let config = initial_config options in
      case accessToken of
        None \<Rightarrow> config
      | Some token \<Rightarrow>
          if token = [] then config
          else config \<lparr> headers :=
                 Some (spread (headers config) ++ [''Authorization'' \<mapsto> ''Bearer '' @ token]) \<rparr>)"

section \<open>TokenManager\<close>

text \<open>
  Where the static methods run: whether \<open>window\<close> is defined, the contents of the
  browser's \<open>localStorage\<close>, and the storage's answer to a write. \<open>setItem_error c k v\<close> is
  the exception \<open>localStorage.setItem(k, v)\<close> throws when the storage holds \<open>c\<close> (a
  \<open>QuotaExceededError\<close> when the quota is reached), \<open>None\<close> when the write is accepted.
  \<open>getItem\<close> and \<open>removeItem\<close> do not throw, and the storage is taken to be accessible
  wherever \<open>window\<close> is defined.
\<close>

record browser =
  window_defined :: bool
  localStorage :: "string \<rightharpoonup> string"
  setItem_error :: "(string \<rightharpoonup> string) \<Rightarrow> string \<Rightarrow> string \<Rightarrow> thrown option"

definition ACCESS_TOKEN_KEY :: string where
  "ACCESS_TOKEN_KEY = ''access_token''"

definition REFRESH_TOKEN_KEY :: string where
  "REFRESH_TOKEN_KEY = ''refresh_token''"

text \<open>
  The fields of \<open>AuthResponse\<close> and \<open>VerifyResetPasswordResponse\<close> that the code reads;
  both are declared \<open>string\<close>.
\<close>

record token_response =
  access_token :: string
  refresh_token :: string

text \<open>
  \<open>localStorage.setItem(k, v)\<close>: the exception thrown, if any, and the browser afterwards.
  A rejected write leaves the storage as it was.
\<close>

definition setItem :: "string \<Rightarrow> string \<Rightarrow> browser \<Rightarrow> thrown option \<times> browser" where
  "setItem k v s =
     (case setItem_error s (localStorage s) k v of
        Some e \<Rightarrow> (Some e, s)
      | None \<Rightarrow> (None, s \<lparr> localStorage := (localStorage s)(k \<mapsto> v) \<rparr>))"

text \<open>
  Lines 446-451: two writes, one after the other. When the first throws the second is not
  reached; when the second throws the first has already been stored.
\<close>

definition setTokens :: "string \<Rightarrow> string \<Rightarrow> browser \<Rightarrow> thrown option \<times> browser" where
  "setTokens accessToken refreshToken s =
     (if window_defined s
      then (case setItem ACCESS_TOKEN_KEY accessToken s of
              (Some e, s1) \<Rightarrow> (Some e, s1)
            | (None, s1) \<Rightarrow> setItem REFRESH_TOKEN_KEY refreshToken s1)
      else (None, s))"

definition getAccessToken :: "browser \<Rightarrow> string option" where
  "getAccessToken s = (if window_defined s then localStorage s ACCESS_TOKEN_KEY else None)"

definition getRefreshToken :: "browser \<Rightarrow> string option" where
  "getRefreshToken s = (if window_defined s then localStorage s REFRESH_TOKEN_KEY else None)"

definition clearTokens :: "browser \<Rightarrow> browser" where
  "clearTokens s =
     (if window_defined s
      then s \<lparr> localStorage :=
             (localStorage s)(ACCESS_TOKEN_KEY := None, REFRESH_TOKEN_KEY := None) \<rparr>
      else s)"

text \<open>
  Lines 474-489. \<open>api\<close> is \<open>apiClient.refreshToken\<close>: the outcome of the network call for
  the refresh token it is given. The result is the returned value (\<open>None\<close> is \<open>null\<close>), the
  browser afterwards, and the refresh tokens sent to the backend, in order.
  \<open>!refreshToken\<close> holds for \<open>null\<close> and for the empty string. The \<open>try\<close> block holds the
  call and \<open>setTokens\<close> both, so a write that throws is caught like a failed call.
\<close>

definition refreshAccessToken ::
  "(string \<Rightarrow> thrown + token_response) \<Rightarrow> browser \<Rightarrow> string option \<times> browser \<times> string list" where
  "refreshAccessToken api s =
     (case getRefreshToken s of
        None \<Rightarrow> (None, s, [])
      | Some refreshToken \<Rightarrow>
          if refreshToken = [] then (None, s, [])
          else (case api refreshToken of
                  Inr response \<Rightarrow>
                    (case setTokens (access_token response) (refresh_token response) s of
                       (None, s1) \<Rightarrow> (Some (access_token response), s1, [refreshToken])
                     | (Some error, s1) \<Rightarrow> (None, clearTokens s1, [refreshToken]))
                | Inl error \<Rightarrow> (None, clearTokens s, [refreshToken])))"

text \<open>A sequence of calls; a refresh carries the backend's behaviour at that moment.\<close>

datatype tm_op =
    SetTokens string string
  | ClearTokens
  | RefreshAccessToken "string \<Rightarrow> thrown + token_response"

text \<open>One call: what it throws to its caller, if anything, and the browser afterwards.\<close>

fun tm_step :: "tm_op \<Rightarrow> browser \<Rightarrow> thrown option \<times> browser" where
  "tm_step (SetTokens a r) s = setTokens a r s"
| "tm_step ClearTokens s = (None, clearTokens s)"
| "tm_step (RefreshAccessToken api) s = (None, fst (snd (refreshAccessToken api s)))"

text \<open>
  The calls in order, each on the browser the one before left: the exceptions thrown to the
  callers, oldest first, and the browser at the end.
\<close>

fun tm_run :: "tm_op list \<Rightarrow> browser \<Rightarrow> thrown list \<times> browser" where
  "tm_run [] s = ([], s)"
| "tm_run (x # xs) s =
     (case tm_step x s of
        (e, s1) \<Rightarrow>
          (case tm_run xs s1 of
             (es, s2) \<Rightarrow> ((case e of None \<Rightarrow> [] | Some ex \<Rightarrow> [ex]) @ es, s2)))"

text \<open>Both slots hold a value, or neither does.\<close>

definition paired :: "browser \<Rightarrow> bool" where
  "paired s =
     ((localStorage s ACCESS_TOKEN_KEY = None) = (localStorage s REFRESH_TOKEN_KEY = None))"

section \<open>The confirm-reset page\<close>

text \<open>
  The notifications the page raises, one constructor per \<open>toast\<close> call of the source:
  line 48 (email not found), 57 (password required), 66 (passwords differ), 75 (password too
  short), 85 (OTP not verified), 104 (reset succeeded), 126 and 136 (reset succeeded, log in
  by hand), 145 (verification failed, with its description).
\<close>

datatype toast =
    EmailNotFound
  | PasswordRequired
  | PasswordMismatch
  | PasswordTooShort
  | OtpNotVerified
  | ResetSucceeded
  | ResetSucceededPleaseLogin
  | VerificationFailed string

text \<open>The argument of \<open>apiClient.verifyResetPassword\<close>: \<open>email\<close>, \<open>otp_code\<close>, \<open>new_password\<close>.\<close>

datatype verify_request = VerifyResetPasswordRequest string string string

text \<open>
  The component's React state, the tab's \<open>sessionStorage\<close>, and what the component has
  done so far, oldest first: the toasts raised, the arguments of \<open>router.push\<close>, the backend
  calls, and the token pairs handed to \<open>signIn\<close>. A string of the model stands for the
  JavaScript string, one character per UTF-16 code unit, which is what \<open>.length\<close> counts.
\<close>

record page =
  email :: string
  newPassword :: string
  confirmPassword :: string
  loading :: bool
  isVerifying :: bool
  sessionStorage :: "string \<rightharpoonup> string"
  toasts :: "toast list"
  pushes :: "string list"
  calls :: "verify_request list"
  signIns :: "(string \<times> string) list"

definition raise_toast :: "toast \<Rightarrow> page \<Rightarrow> page" where
  "raise_toast t p = p \<lparr> toasts := toasts p @ [t] \<rparr>"

definition router_push :: "string \<Rightarrow> page \<Rightarrow> page" where
  "router_push url p = p \<lparr> pushes := pushes p @ [url] \<rparr>"

definition removeItem :: "string \<Rightarrow> page \<Rightarrow> page" where
  "removeItem k p = p \<lparr> sessionStorage := (sessionStorage p)(k := None) \<rparr>"

text \<open>\<open>if (v)\<close> on the result of \<open>getItem\<close>: neither \<open>null\<close> nor the empty string.\<close>

fun truthy_item :: "string option \<Rightarrow> bool" where
  "truthy_item None = False"
| "truthy_item (Some v) = (v \<noteq> [])"

text \<open>The component as first rendered: the initial values of the \<open>useState\<close> calls.\<close>

definition initial_page :: "(string \<rightharpoonup> string) \<Rightarrow> page" where
  "initial_page store =
     \<lparr> email = [], newPassword = [], confirmPassword = [], loading = False,
       isVerifying = False, sessionStorage = store, toasts = [], pushes = [], calls = [],
       signIns = [] \<rparr>"

text \<open>Lines 167-175: what a render shows.\<close>

datatype view = LoadingPlaceholder | PasswordForm

definition render :: "page \<Rightarrow> view" where
  "render p = (if email p = [] then LoadingPlaceholder else PasswordForm)"

text \<open>Lines 29-44: the effect run after the first render.\<close>

definition mount_effect :: "page \<Rightarrow> page" where
  "mount_effect p =
     (let storedEmail = sessionStorage p ''reset_password_email'';
          verifiedOtp = sessionStorage p ''verified_otp'';
          p1 = (case storedEmail of
                  None \<Rightarrow> router_push ''/auth/reset-password'' p
                | Some e \<Rightarrow> if e = [] then router_push ''/auth/reset-password'' p
                            else p \<lparr> email := e \<rparr>)
      in if \<not> truthy_item verifiedOtp then router_push ''/auth/verify-otp-reset'' p1 else p1)"

text \<open>Line 150: the description used when the caught value is not an \<open>Error\<close>.\<close>

definition generic_failure :: string where
  "generic_failure =
     ''Terjadi kesalahan saat verifikasi. Silakan coba lagi atau hubungi support.''"

text \<open>Lines 83-92, the branch taken when \<open>verified_otp\<close> is missing or empty.\<close>

definition otp_missing :: "page \<Rightarrow> page" where
  "otp_missing p = router_push ''/auth/verify-otp-reset'' (raise_toast OtpNotVerified p)"

text \<open>
  Lines 104-142, after the backend call has succeeded. \<open>signIn\<close> is the session bridge:
  \<open>Inl e\<close> when it throws, \<open>Inr None\<close> when it resolves to \<open>undefined\<close>, \<open>Inr (Some b)\<close>
  when the result's \<open>ok\<close> is \<open>b\<close>.
\<close>

definition on_reset_success ::
  "(string \<times> string \<Rightarrow> thrown + bool option) \<Rightarrow> token_response \<Rightarrow> page \<Rightarrow> page" where
  "on_reset_success signIn response p =
     (let p1 = raise_toast ResetSucceeded p;
          p2 = removeItem ''verified_otp'' (removeItem ''reset_password_email'' p1);
          credentials = (access_token response, refresh_token response);
          p3 = p2 \<lparr> signIns := signIns p2 @ [credentials] \<rparr>
      in case signIn credentials of
           Inr (Some True) \<Rightarrow> router_push ''/'' p3
         | Inr _ \<Rightarrow> router_push ''auth/login'' (raise_toast ResetSucceededPleaseLogin p3)
         | Inl loginError \<Rightarrow>
             router_push ''/auth/login'' (raise_toast ResetSucceededPleaseLogin p3))"

text \<open>Lines 143-155, the outer \<open>catch\<close>.\<close>

definition on_reset_failure :: "thrown \<Rightarrow> page \<Rightarrow> page" where
  "on_reset_failure error p =
     (let description = (case error_message error of Some m \<Rightarrow> m | None \<Rightarrow> generic_failure);
          p1 = raise_toast (VerificationFailed description) p;
          p2 = removeItem ''verified_otp'' p1
      in p2 \<lparr> isVerifying := False \<rparr>)"

text \<open>
  Lines 46-160. \<open>api\<close> is \<open>apiClient.verifyResetPassword\<close>, the outcome of the backend call
  for the request it is given.
\<close>

definition verifyResetPassword ::
  "(verify_request \<Rightarrow> thrown + token_response) \<Rightarrow>
   (string \<times> string \<Rightarrow> thrown + bool option) \<Rightarrow> page \<Rightarrow> page" where
  "verifyResetPassword api signIn p =
     (if email p = [] then raise_toast EmailNotFound p
      else if newPassword p = [] \<or> confirmPassword p = [] then raise_toast PasswordRequired p
      else if newPassword p \<noteq> confirmPassword p then raise_toast PasswordMismatch p
      else if length (newPassword p) < 6 then raise_toast PasswordTooShort p
      else case sessionStorage p ''verified_otp'' of
             None \<Rightarrow> otp_missing p
           | Some verifiedOtp \<Rightarrow>
               if verifiedOtp = [] then otp_missing p
               else
                 let p1 = p \<lparr> isVerifying := True, loading := True \<rparr>;
                     req = VerifyResetPasswordRequest (email p) verifiedOtp (newPassword p);
                     p2 = p1 \<lparr> calls := calls p1 @ [req] \<rparr>;
                     p3 = (case api req of
                             Inr response \<Rightarrow> on_reset_success signIn response p2
                           | Inl error \<Rightarrow> on_reset_failure error p2)
                 in p3 \<lparr> loading := False, isVerifying := False \<rparr>)"

section \<open>The specification's wording, for comparison with the code\<close>







text \<open>\<open>config.headers[k]\<close>, \<open>None\<close> when the header is not set.\<close>

definition header_of :: "request_init \<Rightarrow> string \<Rightarrow> string option" where
  "header_of config k = (case headers config of None \<Rightarrow> None | Some h \<Rightarrow> h k)"


text \<open>The five local validations of the confirm-reset step, in the specification's order.\<close>

datatype validation =
    EmailPresent
  | PasswordsEntered
  | PasswordsEqual
  | PasswordLongEnough
  | OtpPresent

fun passes :: "page \<Rightarrow> validation \<Rightarrow> bool" where
  "passes p EmailPresent = (email p \<noteq> [])"
| "passes p PasswordsEntered = (newPassword p \<noteq> [] \<and> confirmPassword p \<noteq> [])"
| "passes p PasswordsEqual = (newPassword p = confirmPassword p)"
| "passes p PasswordLongEnough = (6 \<le> length (newPassword p))"
| "passes p OtpPresent = truthy_item (sessionStorage p ''verified_otp'')"

definition validation_order :: "validation list" where
  "validation_order =
     [EmailPresent, PasswordsEntered, PasswordsEqual, PasswordLongEnough, OtpPresent]"

definition first_failure :: "page \<Rightarrow> validation option" where
  "first_failure p = find (\<lambda>v. \<not> passes p v) validation_order"

text \<open>The toast the source raises where each validation fails.\<close>

fun rejection_toast :: "validation \<Rightarrow> toast" where
  "rejection_toast EmailPresent = EmailNotFound"
| "rejection_toast PasswordsEntered = PasswordRequired"
| "rejection_toast PasswordsEqual = PasswordMismatch"
| "rejection_toast PasswordLongEnough = PasswordTooShort"
| "rejection_toast OtpPresent = OtpNotVerified"

section \<open>Concrete inputs\<close>

definition flow_store :: "string \<rightharpoonup> string" where
  "flow_store = [''reset_password_email'' \<mapsto> ''user@example.com'', ''verified_otp'' \<mapsto> ''123456'']"

text \<open>The page once mounted on \<open>store\<close>, with the two password fields typed in.\<close>

definition typed_page :: "(string \<rightharpoonup> string) \<Rightarrow> string \<Rightarrow> string \<Rightarrow> page" where
  "typed_page store pw confirm =
     (mount_effect (initial_page store)) \<lparr> newPassword := pw, confirmPassword := confirm \<rparr>"

definition new_tokens :: token_response where
  "new_tokens = \<lparr> access_token = ''a2'', refresh_token = ''r2'' \<rparr>"

text \<open>A browser whose storage accepts every write, on the given contents.\<close>

definition roomy_browser :: "(string \<rightharpoonup> string) \<Rightarrow> browser" where
  "roomy_browser c =
     \<lparr> window_defined = True, localStorage = c, setItem_error = (\<lambda>c k v. None) \<rparr>"

definition signed_in_browser :: browser where
  "signed_in_browser =
     roomy_browser [''access_token'' \<mapsto> ''a1'', ''refresh_token'' \<mapsto> ''r1'']"

definition quota_exceeded :: thrown where
  "quota_exceeded = DOMException ''QuotaExceededError'' ''The quota has been exceeded.''"

text \<open>The same pair stored, in a storage that has reached its quota: every write throws.\<close>

definition full_browser :: browser where
  "full_browser =
     \<lparr> window_defined = True,
       localStorage = [''access_token'' \<mapsto> ''a1'', ''refresh_token'' \<mapsto> ''r1''],
       setItem_error = (\<lambda>c k v. Some quota_exceeded) \<rparr>"

text \<open>An empty storage with room for one item: a write throws once something is stored.\<close>

definition one_slot_browser :: browser where
  "one_slot_browser =
     \<lparr> window_defined = True,
       localStorage = Map.empty,
       setItem_error =
         (\<lambda>c k v. case c ''access_token'' of None \<Rightarrow> None | Some x \<Rightarrow> Some quota_exceeded) \<rparr>"


definition wrapped_twice :: json where
  "wrapped_twice = JObj [(''data'', JObj [(''data'', JObj [(''id'', JNum 7)])])]"

definition data_string_error :: json where
  "data_string_error = JObj [(''data'', JObj [(''error'', JStr ''boom'')])]"

section \<open>The error normalizer\<close>

lemma decimal_nonempty: "decimal n \<noteq> []"
  by (subst decimal.simps) simp

lemma http_phrase_nonempty: "http_phrase st stt \<noteq> []"
  by (simp add: http_phrase_def)

lemma truthy_phrase: "truthy (Some (JStr (http_phrase st stt)))"
  by (simp add: http_phrase_nonempty)

lemma null_read_message_nonempty: "null_read_message p \<noteq> []"
  by (simp add: null_read_message_def)

lemma or_js_truthy: "truthy b \<Longrightarrow> truthy (or_js a b)"
  by (simp add: or_js_def)

lemma errorMessage_outer_truthy: "truthy (errorMessage_outer st stt b)"
  unfolding errorMessage_outer_def by (rule or_js_truthy) (rule truthy_phrase)

lemma errorMessage_data_truthy: "truthy m \<Longrightarrow> truthy (errorMessage_data m b)"
  by (simp add: errorMessage_data_def or_js_truthy split: option.splits)

lemma errorMessage_final_nonempty: "truthy m \<Longrightarrow> errorMessage_final st stt m \<noteq> []"
  by (cases m rule: truthy.cases) (simp_all add: errorMessage_final_def http_phrase_nonempty)

lemma normalize_message_nonempty: "normalize_message st stt b \<noteq> []"
  unfolding normalize_message_def
  by (intro errorMessage_final_nonempty errorMessage_data_truthy errorMessage_outer_truthy)

text \<open>The shapes the backend is known to answer with, and bodies that are no object at all.\<close>

lemma normalize_message_shapes:
  "normalize_message 400 ''Bad Request'' (JObj [(''message'', JStr ''flat'')]) = ''flat''"
  "normalize_message 400 ''Bad Request''
     (JObj [(''error'', JObj [(''code'', JStr ''E1''), (''message'', JStr ''nested'')])]) = ''nested''"
  "normalize_message 400 ''Bad Request'' (JObj [(''error'', JStr ''plain'')]) = ''plain''"
  "normalize_message 400 ''Bad Request''
     (JObj [(''data'', JObj [(''error'', JObj [(''message'', JStr ''wrapped'')])])]) = ''wrapped''"
  "normalize_message 400 ''Bad Request'' (JNum 42) = ''HTTP 400: Bad Request''"
  "normalize_message 400 ''Bad Request'' (JObj []) = ''HTTP 400: Bad Request''"
  by (simp_all add: normalize_message_def errorMessage_final_def errorMessage_data_def
      errorMessage_outer_def or_js_def http_phrase_def digit_char_def)

text \<open>
  Claim C2. For every response that is not OK, whatever its body decodes to (any JSON
  value, or no JSON at all), the request fails with an error that carries a message, and
  the message is a non-empty string. The message has the type of strings: the guard of
  lines 305-307 replaces any other value by the status phrase. Unless the body decodes to
  \<open>null\<close>, the error is the one built at lines 310-323, with the response's status; a
  \<open>null\<close> body fails earlier, with the runtime's \<open>TypeError\<close>, whose message is not empty
  either.
\<close>

theorem request_error_message_nonempty:
  "\<not> ok r \<Longrightarrow>
     \<exists>e m. request (Inr r) = Inl e \<and> error_message e = Some m \<and> m \<noteq> [] \<and>
           (json_result r = Inr JNull \<or> (\<exists>d. e = ApiError m (status r) d))"
  by (cases "json_result r")
     (simp_all add: request_def request_not_ok_def Let_def normalize_message_nonempty
      null_read_message_nonempty)

text \<open>At a 500 response whose \<open>message\<close> is an object.\<close>

theorem request_error_message_nonempty_witness:
  "\<not> ok \<lparr> status = 500, statusText = ''Internal Server Error'',
            json_result = Inr (JObj [(''message'', JObj [(''code'', JNum 7)])]) \<rparr> \<and>
   (\<exists>e m. request (Inr \<lparr> status = 500, statusText = ''Internal Server Error'',
            json_result = Inr (JObj [(''message'', JObj [(''code'', JNum 7)])]) \<rparr>) = Inl e \<and>
          error_message e = Some m \<and> m \<noteq> [] \<and> (\<exists>d. e = ApiError m 500 d))"
  using request_error_message_nonempty
    [of "\<lparr> status = 500, statusText = ''Internal Server Error'',
            json_result = Inr (JObj [(''message'', JObj [(''code'', JNum 7)])]) \<rparr>"]
  by (simp add: ok_def)

subsection \<open>The fallback chain\<close>












text \<open>
  The shape left out of the amended claim: against \<open>data\<close> the code reads \<open>message\<close> and
  \<open>error.message\<close> and does not look for a string \<open>error\<close>, which it does against the
  body itself.
\<close>

lemma normalize_message_data_string_error:
  "normalize_message 500 ''Internal Server Error'' data_string_error
     = ''HTTP 500: Internal Server Error''"
  "normalize_message 500 ''Internal Server Error'' (JObj [(''error'', JStr ''boom'')]) = ''boom''"
  by (simp_all add: data_string_error_def normalize_message_def errorMessage_final_def
      errorMessage_data_def errorMessage_outer_def or_js_def http_phrase_def digit_char_def)

section \<open>Successful responses\<close>

text \<open>
  A successful response whose body is not JSON fails with the decoder's error, and one whose
  body is \<open>null\<close> fails on the read of \<open>data.data\<close>.
\<close>

lemma request_ok_failures:
  "ok r \<Longrightarrow> json_result r = Inl e \<Longrightarrow> request (Inr r) = Inl e"
  "ok r \<Longrightarrow> json_result r = Inr JNull \<Longrightarrow>
     request (Inr r) = Inl (TypeError (null_read_message ''data''))"
  by (simp_all add: request_def request_ok_def)

text \<open>
  Claim C1, as amended. For a successful response whose body decodes to a value other than
  \<open>null\<close>: when the body's \<open>data\<close> property is truthy the client returns that property,
  as it is and unwrapped once; when the property is missing or falsy (\<open>null\<close>, \<open>false\<close>,
  \<open>0\<close>, the empty string) the client returns the whole decoded body.
\<close>

theorem request_ok_unwraps_truthy_data:
  "(ok r \<and> json_result r = Inr b \<and> get_prop b ''data'' = Some d \<and> truthy (Some d)
      \<longrightarrow> request (Inr r) = Inr d) \<and>
   (ok r \<and> json_result r = Inr b \<and> b \<noteq> JNull \<and> \<not> truthy (get_prop b ''data'')
      \<longrightarrow> request (Inr r) = Inr b)"
  by (auto simp: request_def request_ok_def split: option.splits)

text \<open>
  A body wrapped twice loses one wrapper only; a body with no \<open>data\<close> comes back whole.
\<close>

theorem request_ok_unwraps_truthy_data_witness:
  "request (Inr \<lparr> status = 200, statusText = ''OK'', json_result = Inr wrapped_twice \<rparr>)
     = Inr (JObj [(''data'', JObj [(''id'', JNum 7)])]) \<and>
   request (Inr \<lparr> status = 200, statusText = ''OK'',
       json_result = Inr (JObj [(''id'', JNum 7)]) \<rparr>)
     = Inr (JObj [(''id'', JNum 7)])"
  using request_ok_unwraps_truthy_data
    [of "\<lparr> status = 200, statusText = ''OK'', json_result = Inr wrapped_twice \<rparr>"
        wrapped_twice "JObj [(''data'', JObj [(''id'', JNum 7)])]"]
    request_ok_unwraps_truthy_data
    [of "\<lparr> status = 200, statusText = ''OK'', json_result = Inr (JObj [(''id'', JNum 7)]) \<rparr>"
        "JObj [(''id'', JNum 7)]" "JNull"]
  by (simp add: ok_def wrapped_twice_def)

text \<open>
  The claim as worded fails at the body \<open>{data: 0}\<close>: it has a \<open>data\<close> property, and the
  client returns the envelope, not \<open>0\<close>.
\<close>

theorem request_ok_falsy_data_counterexample:
  "ok \<lparr> status = 200, statusText = ''OK'', json_result = Inr (JObj [(''data'', JNum 0)]) \<rparr> \<and>
   get_prop (JObj [(''data'', JNum 0)]) ''data'' = Some (JNum 0) \<and>
   request (Inr \<lparr> status = 200, statusText = ''OK'',
                   json_result = Inr (JObj [(''data'', JNum 0)]) \<rparr>)
     = Inr (JObj [(''data'', JNum 0)]) \<and>
   request (Inr \<lparr> status = 200, statusText = ''OK'',
                   json_result = Inr (JObj [(''data'', JNum 0)]) \<rparr>)
     \<noteq> Inr (JNum 0)"
  by (simp add: ok_def request_def request_ok_def)

section \<open>Request headers\<close>






text \<open>
  A call that did pass \<open>headers\<close> would have them replace the merged object, the
  \<open>Content-Type\<close> with it, since \<open>...options\<close> comes after \<open>headers\<close> in the literal of
  lines 268-274. No caller in the file does.
\<close>

lemma request_config_caller_headers_replace:
  "headers options = Some h \<Longrightarrow> header_of (request_config None options) k = h k"
  by (simp add: header_of_def request_config_def initial_config_def)

section \<open>Token storage\<close>

lemma keys_differ: "ACCESS_TOKEN_KEY \<noteq> REFRESH_TOKEN_KEY"
  by (simp add: ACCESS_TOKEN_KEY_def REFRESH_TOKEN_KEY_def)

lemma getRefreshToken_window: "getRefreshToken s = Some t \<Longrightarrow> window_defined s"
  by (simp add: getRefreshToken_def split: if_splits)

text \<open>The three ways \<open>setTokens\<close> can end in a browser.\<close>

lemma setTokens_accepted:
  "window_defined s \<Longrightarrow>
   setItem_error s (localStorage s) ACCESS_TOKEN_KEY a = None \<Longrightarrow>
   setItem_error s ((localStorage s)(ACCESS_TOKEN_KEY \<mapsto> a)) REFRESH_TOKEN_KEY r = None \<Longrightarrow>
   setTokens a r s =
     (None, s \<lparr> localStorage := (localStorage s)(ACCESS_TOKEN_KEY \<mapsto> a, REFRESH_TOKEN_KEY \<mapsto> r) \<rparr>)"
  by (simp add: setTokens_def setItem_def)

lemma setTokens_first_rejected:
  "window_defined s \<Longrightarrow>
   setItem_error s (localStorage s) ACCESS_TOKEN_KEY a = Some e \<Longrightarrow>
   setTokens a r s = (Some e, s)"
  by (simp add: setTokens_def setItem_def)

lemma setTokens_second_rejected:
  "window_defined s \<Longrightarrow>
   setItem_error s (localStorage s) ACCESS_TOKEN_KEY a = None \<Longrightarrow>
   setItem_error s ((localStorage s)(ACCESS_TOKEN_KEY \<mapsto> a)) REFRESH_TOKEN_KEY r = Some e \<Longrightarrow>
   setTokens a r s = (Some e, s \<lparr> localStorage := (localStorage s)(ACCESS_TOKEN_KEY \<mapsto> a) \<rparr>)"
  by (simp add: setTokens_def setItem_def)

lemma setTokens_no_window: "\<not> window_defined s \<Longrightarrow> setTokens a r s = (None, s)"
  by (simp add: setTokens_def)

lemma clearTokens_storage:
  "window_defined s \<Longrightarrow>
   clearTokens s =
     s \<lparr> localStorage := (localStorage s)(ACCESS_TOKEN_KEY := None, REFRESH_TOKEN_KEY := None) \<rparr>"
  by (simp add: clearTokens_def)

text \<open>
  A refresh that reaches the backend. When the backend answers and both writes are accepted
  the pair is stored; in every other case both slots are empty afterwards, also when the
  first write went through and the second threw.
\<close>

lemma refresh_stored:
  assumes "getRefreshToken s = Some t" "t \<noteq> []" "api t = Inr resp"
    and "setItem_error s (localStorage s) ACCESS_TOKEN_KEY (access_token resp) = None"
    and "setItem_error s ((localStorage s)(ACCESS_TOKEN_KEY \<mapsto> access_token resp))
           REFRESH_TOKEN_KEY (refresh_token resp) = None"
  shows "refreshAccessToken api s =
           (Some (access_token resp),
            s \<lparr> localStorage := (localStorage s)(ACCESS_TOKEN_KEY \<mapsto> access_token resp,
                                                  REFRESH_TOKEN_KEY \<mapsto> refresh_token resp) \<rparr>,
            [t])"
proof -
  have w: "window_defined s" using assms(1) by (rule getRefreshToken_window)
  show ?thesis
    using assms(1-3) by (simp add: refreshAccessToken_def setTokens_accepted [OF w assms(4,5)])
qed

lemma refresh_call_failed:
  assumes "getRefreshToken s = Some t" "t \<noteq> []" "api t = Inl e"
  shows "refreshAccessToken api s =
           (None,
            s \<lparr> localStorage := (localStorage s)(ACCESS_TOKEN_KEY := None,
                                                  REFRESH_TOKEN_KEY := None) \<rparr>,
            [t])"
proof -
  have w: "window_defined s" using assms(1) by (rule getRefreshToken_window)
  show ?thesis
    using assms by (simp add: refreshAccessToken_def clearTokens_storage [OF w])
qed

lemma refresh_write_failed:
  assumes "getRefreshToken s = Some t" "t \<noteq> []" "api t = Inr resp"
    and "setItem_error s (localStorage s) ACCESS_TOKEN_KEY (access_token resp) \<noteq> None \<or>
         setItem_error s ((localStorage s)(ACCESS_TOKEN_KEY \<mapsto> access_token resp))
           REFRESH_TOKEN_KEY (refresh_token resp) \<noteq> None"
  shows "refreshAccessToken api s =
           (None,
            s \<lparr> localStorage := (localStorage s)(ACCESS_TOKEN_KEY := None,
                                                  REFRESH_TOKEN_KEY := None) \<rparr>,
            [t])"
proof -
  have w: "window_defined s" using assms(1) by (rule getRefreshToken_window)
  show ?thesis
  proof (cases "setItem_error s (localStorage s) ACCESS_TOKEN_KEY (access_token resp)")
    case (Some e)
    from assms(1-3) show ?thesis
      by (simp add: refreshAccessToken_def setTokens_first_rejected [OF w Some]
          clearTokens_storage [OF w])
  next
    case None
    with assms(4) obtain e where
      e: "setItem_error s ((localStorage s)(ACCESS_TOKEN_KEY \<mapsto> access_token resp))
            REFRESH_TOKEN_KEY (refresh_token resp) = Some e"
      by auto
    from assms(1-3) w show ?thesis
      by (simp add: refreshAccessToken_def setTokens_second_rejected [OF w None e]
          clearTokens_def)
  qed
qed

lemma refresh_nothing_stored:
  "getRefreshToken s = None \<or> getRefreshToken s = Some [] \<Longrightarrow>
     refreshAccessToken api s = (None, s, [])"
  by (auto simp: refreshAccessToken_def)

lemma getters_after_store:
  "window_defined s \<Longrightarrow>
     getAccessToken
       (s \<lparr> localStorage := (localStorage s)(ACCESS_TOKEN_KEY \<mapsto> a, REFRESH_TOKEN_KEY \<mapsto> r) \<rparr>)
       = Some a \<and>
     getRefreshToken
       (s \<lparr> localStorage := (localStorage s)(ACCESS_TOKEN_KEY \<mapsto> a, REFRESH_TOKEN_KEY \<mapsto> r) \<rparr>)
       = Some r"
  using keys_differ by (simp add: getAccessToken_def getRefreshToken_def)

lemma getters_after_clear:
  "getAccessToken
     (s \<lparr> localStorage := (localStorage s)(ACCESS_TOKEN_KEY := None, REFRESH_TOKEN_KEY := None) \<rparr>)
     = None \<and>
   getRefreshToken
     (s \<lparr> localStorage := (localStorage s)(ACCESS_TOKEN_KEY := None, REFRESH_TOKEN_KEY := None) \<rparr>)
     = None"
  by (simp add: getAccessToken_def getRefreshToken_def)

text \<open>
  Claim C4, as amended. With no stored refresh token (none, or the empty string, which
  \<open>!refreshToken\<close> treats alike) \<open>refreshAccessToken\<close> returns \<open>null\<close>, leaves the browser as
  it was and makes no network call. With a stored refresh token it makes one call, with that
  token. When the backend answers and the storage accepts both writes, both returned tokens
  are stored and the new access token is returned. When the call fails, in whatever way, or
  the backend answers and a write is rejected, both slots are empty afterwards and \<open>null\<close>
  is returned.
\<close>

theorem refreshAccessToken_outcomes:
  "(getRefreshToken s = None \<or> getRefreshToken s = Some []
      \<longrightarrow> refreshAccessToken api s = (None, s, [])) \<and>
   (getRefreshToken s = Some t \<and> t \<noteq> [] \<and> api t = Inr resp \<and>
    setItem_error s (localStorage s) ACCESS_TOKEN_KEY (access_token resp) = None \<and>
    setItem_error s ((localStorage s)(ACCESS_TOKEN_KEY \<mapsto> access_token resp))
      REFRESH_TOKEN_KEY (refresh_token resp) = None
      \<longrightarrow> (\<exists>s'. refreshAccessToken api s = (Some (access_token resp), s', [t]) \<and>
                getAccessToken s' = Some (access_token resp) \<and>
                getRefreshToken s' = Some (refresh_token resp))) \<and>
   (getRefreshToken s = Some t \<and> t \<noteq> [] \<and> api t = Inl e
      \<longrightarrow> (\<exists>s'. refreshAccessToken api s = (None, s', [t]) \<and>
                getAccessToken s' = None \<and> getRefreshToken s' = None)) \<and>
   (getRefreshToken s = Some t \<and> t \<noteq> [] \<and> api t = Inr resp \<and>
    (setItem_error s (localStorage s) ACCESS_TOKEN_KEY (access_token resp) \<noteq> None \<or>
     setItem_error s ((localStorage s)(ACCESS_TOKEN_KEY \<mapsto> access_token resp))
       REFRESH_TOKEN_KEY (refresh_token resp) \<noteq> None)
      \<longrightarrow> (\<exists>s'. refreshAccessToken api s = (None, s', [t]) \<and>
                getAccessToken s' = None \<and> getRefreshToken s' = None))"
proof -
  have 1: "getRefreshToken s = None \<or> getRefreshToken s = Some []
      \<longrightarrow> refreshAccessToken api s = (None, s, [])"
    by (blast intro: refresh_nothing_stored)
  have 2: "getRefreshToken s = Some t \<and> t \<noteq> [] \<and> api t = Inr resp \<and>
    setItem_error s (localStorage s) ACCESS_TOKEN_KEY (access_token resp) = None \<and>
    setItem_error s ((localStorage s)(ACCESS_TOKEN_KEY \<mapsto> access_token resp))
      REFRESH_TOKEN_KEY (refresh_token resp) = None
      \<longrightarrow> (\<exists>s'. refreshAccessToken api s = (Some (access_token resp), s', [t]) \<and>
                getAccessToken s' = Some (access_token resp) \<and>
                getRefreshToken s' = Some (refresh_token resp))"
  proof
    assume a: "getRefreshToken s = Some t \<and> t \<noteq> [] \<and> api t = Inr resp \<and>
      setItem_error s (localStorage s) ACCESS_TOKEN_KEY (access_token resp) = None \<and>
      setItem_error s ((localStorage s)(ACCESS_TOKEN_KEY \<mapsto> access_token resp))
        REFRESH_TOKEN_KEY (refresh_token resp) = None"
    then have w: "window_defined s" by (blast dest: getRefreshToken_window)
    from a have "refreshAccessToken api s =
           (Some (access_token resp),
            s \<lparr> localStorage := (localStorage s)(ACCESS_TOKEN_KEY \<mapsto> access_token resp,
                                                  REFRESH_TOKEN_KEY \<mapsto> refresh_token resp) \<rparr>,
            [t])"
      by (blast intro: refresh_stored)
    with getters_after_store [OF w]
    show "\<exists>s'. refreshAccessToken api s = (Some (access_token resp), s', [t]) \<and>
                getAccessToken s' = Some (access_token resp) \<and>
                getRefreshToken s' = Some (refresh_token resp)"
      by blast
  qed
  have 3: "getRefreshToken s = Some t \<and> t \<noteq> [] \<and> api t = Inl e
      \<longrightarrow> (\<exists>s'. refreshAccessToken api s = (None, s', [t]) \<and>
                getAccessToken s' = None \<and> getRefreshToken s' = None)"
    using refresh_call_failed [of s t api e] getters_after_clear [of s] by blast
  have 4: "getRefreshToken s = Some t \<and> t \<noteq> [] \<and> api t = Inr resp \<and>
    (setItem_error s (localStorage s) ACCESS_TOKEN_KEY (access_token resp) \<noteq> None \<or>
     setItem_error s ((localStorage s)(ACCESS_TOKEN_KEY \<mapsto> access_token resp))
       REFRESH_TOKEN_KEY (refresh_token resp) \<noteq> None)
      \<longrightarrow> (\<exists>s'. refreshAccessToken api s = (None, s', [t]) \<and>
                getAccessToken s' = None \<and> getRefreshToken s' = None)"
    using refresh_write_failed [of s t api resp] getters_after_clear [of s] by blast
  from 1 2 3 4 show ?thesis by (intro conjI)
qed

text \<open>
  With an empty storage; with the pair \<open>a1\<close>, \<open>r1\<close> stored and a backend that answers;
  with the same pair and a backend that rejects the token; with the same pair, a backend
  that answers and a storage that has reached its quota.
\<close>

theorem refreshAccessToken_outcomes_witness:
  "refreshAccessToken (\<lambda>t. Inl (ApiError ''expired'' 401 (JObj []))) (roomy_browser Map.empty)
     = (None, roomy_browser Map.empty, []) \<and>
   (\<exists>s'. refreshAccessToken (\<lambda>t. Inr new_tokens) signed_in_browser
          = (Some ''a2'', s', [''r1'']) \<and>
        getAccessToken s' = Some ''a2'' \<and> getRefreshToken s' = Some ''r2'') \<and>
   (\<exists>s'. refreshAccessToken (\<lambda>t. Inl (ApiError ''expired'' 401 (JObj []))) signed_in_browser
          = (None, s', [''r1'']) \<and>
        getAccessToken s' = None \<and> getRefreshToken s' = None) \<and>
   (\<exists>s'. refreshAccessToken (\<lambda>t. Inr new_tokens) full_browser = (None, s', [''r1'']) \<and>
        getAccessToken s' = None \<and> getRefreshToken s' = None)"
  using
    refreshAccessToken_outcomes
      [of "roomy_browser Map.empty" "\<lambda>t. Inl (ApiError ''expired'' 401 (JObj []))" "[]"
          new_tokens "ApiError ''expired'' 401 (JObj [])"]
    refreshAccessToken_outcomes
      [of signed_in_browser "\<lambda>t. Inr new_tokens" "''r1''"
          new_tokens "ApiError ''expired'' 401 (JObj [])"]
    refreshAccessToken_outcomes
      [of signed_in_browser "\<lambda>t. Inl (ApiError ''expired'' 401 (JObj []))" "''r1''"
          new_tokens "ApiError ''expired'' 401 (JObj [])"]
    refreshAccessToken_outcomes
      [of full_browser "\<lambda>t. Inr new_tokens" "''r1''"
          new_tokens "ApiError ''expired'' 401 (JObj [])"]
  by (simp add: getRefreshToken_def REFRESH_TOKEN_KEY_def ACCESS_TOKEN_KEY_def
      signed_in_browser_def roomy_browser_def full_browser_def new_tokens_def)

text \<open>
  The claim as worded fails where the backend answers and the storage has reached its
  quota: a refresh token is stored, the call succeeds, and the result is \<open>null\<close> with both
  slots empty, not the new access token with the pair stored.
\<close>

theorem refreshAccessToken_full_storage_counterexample:
  "getRefreshToken full_browser = Some ''r1'' \<and>
   fst (refreshAccessToken (\<lambda>t. Inr new_tokens) full_browser) = None \<and>
   snd (snd (refreshAccessToken (\<lambda>t. Inr new_tokens) full_browser)) = [''r1''] \<and>
   getAccessToken (fst (snd (refreshAccessToken (\<lambda>t. Inr new_tokens) full_browser))) = None \<and>
   getRefreshToken (fst (snd (refreshAccessToken (\<lambda>t. Inr new_tokens) full_browser))) = None"
  by (simp add: refreshAccessToken_def setTokens_def setItem_def clearTokens_def
      getRefreshToken_def getAccessToken_def REFRESH_TOKEN_KEY_def ACCESS_TOKEN_KEY_def
      full_browser_def new_tokens_def)

subsection \<open>The pair is kept together\<close>

lemma paired_stored:
  "paired (s \<lparr> localStorage := (localStorage s)(ACCESS_TOKEN_KEY \<mapsto> a, REFRESH_TOKEN_KEY \<mapsto> r) \<rparr>)"
  using keys_differ by (simp add: paired_def)

lemma paired_cleared:
  "paired (s \<lparr> localStorage := (localStorage s)(ACCESS_TOKEN_KEY := None, REFRESH_TOKEN_KEY := None) \<rparr>)"
  by (simp add: paired_def)

text \<open>A \<open>setTokens\<close> call that does not throw wrote both slots, or ran outside a browser.\<close>

lemma setTokens_returned:
  assumes "fst (setTokens a r s) = None"
  shows "snd (setTokens a r s) =
           (if window_defined s
            then s \<lparr> localStorage :=
                   (localStorage s)(ACCESS_TOKEN_KEY \<mapsto> a, REFRESH_TOKEN_KEY \<mapsto> r) \<rparr>
            else s)"
  using assms by (auto simp: setTokens_def setItem_def split: option.splits)

lemma paired_setTokens:
  "paired s \<Longrightarrow> fst (setTokens a r s) = None \<Longrightarrow> paired (snd (setTokens a r s))"
  by (simp add: setTokens_returned paired_stored)

lemma paired_clearTokens: "paired s \<Longrightarrow> paired (clearTokens s)"
  by (simp add: clearTokens_def paired_cleared)

text \<open>A refresh keeps the pair together on every path, a rejected write included.\<close>

lemma refresh_effect:
  "fst (snd (refreshAccessToken api s)) = s \<or>
   (\<exists>a r. fst (snd (refreshAccessToken api s)) =
      s \<lparr> localStorage := (localStorage s)(ACCESS_TOKEN_KEY \<mapsto> a, REFRESH_TOKEN_KEY \<mapsto> r) \<rparr>) \<or>
   fst (snd (refreshAccessToken api s)) =
     s \<lparr> localStorage := (localStorage s)(ACCESS_TOKEN_KEY := None, REFRESH_TOKEN_KEY := None) \<rparr>"
proof (cases "getRefreshToken s = None \<or> getRefreshToken s = Some []")
  case True
  then show ?thesis by (simp add: refresh_nothing_stored)
next
  case False
  then obtain t where t: "getRefreshToken s = Some t" "t \<noteq> []" by auto
  show ?thesis
  proof (cases "api t")
    case (Inl e)
    then show ?thesis using refresh_call_failed [of s t api e] t by simp
  next
    case (Inr resp)
    show ?thesis
    proof (cases "setItem_error s (localStorage s) ACCESS_TOKEN_KEY (access_token resp) = None \<and>
        setItem_error s ((localStorage s)(ACCESS_TOKEN_KEY \<mapsto> access_token resp))
          REFRESH_TOKEN_KEY (refresh_token resp) = None")
      case True
      then have "refreshAccessToken api s =
           (Some (access_token resp),
            s \<lparr> localStorage := (localStorage s)(ACCESS_TOKEN_KEY \<mapsto> access_token resp,
                                                  REFRESH_TOKEN_KEY \<mapsto> refresh_token resp) \<rparr>,
            [t])"
        using refresh_stored [of s t api resp] t Inr by blast
      then show ?thesis by auto
    next
      case False
      then have "refreshAccessToken api s =
           (None,
            s \<lparr> localStorage := (localStorage s)(ACCESS_TOKEN_KEY := None,
                                                  REFRESH_TOKEN_KEY := None) \<rparr>,
            [t])"
        using refresh_write_failed [of s t api resp] t Inr by blast
      then show ?thesis by simp
    qed
  qed
qed

lemma paired_refresh: "paired s \<Longrightarrow> paired (fst (snd (refreshAccessToken api s)))"
  using refresh_effect [of api s] by (auto simp: paired_stored paired_cleared)

lemma paired_tm_step: "paired s \<Longrightarrow> fst (tm_step x s) = None \<Longrightarrow> paired (snd (tm_step x s))"
  by (cases x) (simp_all add: paired_setTokens paired_clearTokens paired_refresh)

lemma paired_tm_run: "paired s \<Longrightarrow> fst (tm_run xs s) = [] \<Longrightarrow> paired (snd (tm_run xs s))"
proof (induction xs arbitrary: s)
  case Nil
  then show ?case by simp
next
  case (Cons x xs)
  obtain e s1 where st: "tm_step x s = (e, s1)" by (cases "tm_step x s")
  obtain es s2 where rn: "tm_run xs s1 = (es, s2)" by (cases "tm_run xs s1")
  from Cons.prems(2) st rn have e: "e = None" and es: "es = []"
    by (auto split: option.splits)
  from Cons.prems(1) st e have "paired s1"
    using paired_tm_step [of s x] by simp
  with Cons.IH [of s1] rn es have "paired s2" by simp
  with st rn show ?case by simp
qed

lemma tm_step_no_window: "\<not> window_defined s \<Longrightarrow> tm_step x s = (None, s)"
  by (cases x)
     (simp_all add: setTokens_no_window clearTokens_def refreshAccessToken_def getRefreshToken_def)

text \<open>
  Claim C5, as amended. Starting from a storage in which the two slots are both set or both
  empty, any sequence of \<open>setTokens\<close>, \<open>clearTokens\<close> and \<open>refreshAccessToken\<close> calls none
  of which throws leaves them both set or both empty. In a browser, \<open>setTokens\<close> with both
  writes accepted stores both values; \<open>clearTokens\<close> removes both; \<open>refreshAccessToken\<close>
  never throws and, when a refresh token is stored, either stores the pair the backend
  returned or removes both, and changes nothing when none is stored. Outside a browser no
  call changes anything.
\<close>

theorem token_pair_kept_together:
  "(paired s \<and> fst (tm_run xs s) = [] \<longrightarrow> paired (snd (tm_run xs s))) \<and>
   (window_defined s \<and>
    setItem_error s (localStorage s) ACCESS_TOKEN_KEY a = None \<and>
    setItem_error s ((localStorage s)(ACCESS_TOKEN_KEY \<mapsto> a)) REFRESH_TOKEN_KEY r = None
      \<longrightarrow> tm_step (SetTokens a r) s =
            (None, s \<lparr> localStorage :=
                         (localStorage s)(ACCESS_TOKEN_KEY \<mapsto> a, REFRESH_TOKEN_KEY \<mapsto> r) \<rparr>)) \<and>
   (window_defined s
      \<longrightarrow> tm_step ClearTokens s =
            (None, s \<lparr> localStorage :=
                         (localStorage s)(ACCESS_TOKEN_KEY := None, REFRESH_TOKEN_KEY := None) \<rparr>)) \<and>
   (getRefreshToken s = Some t \<and> t \<noteq> []
      \<longrightarrow> (\<exists>resp. api t = Inr resp \<and>
             tm_step (RefreshAccessToken api) s =
               (None, s \<lparr> localStorage :=
                            (localStorage s)(ACCESS_TOKEN_KEY \<mapsto> access_token resp,
                                             REFRESH_TOKEN_KEY \<mapsto> refresh_token resp) \<rparr>)) \<or>
          tm_step (RefreshAccessToken api) s =
            (None, s \<lparr> localStorage :=
                         (localStorage s)(ACCESS_TOKEN_KEY := None, REFRESH_TOKEN_KEY := None) \<rparr>)) \<and>
   (getRefreshToken s = None \<or> getRefreshToken s = Some []
      \<longrightarrow> tm_step (RefreshAccessToken api) s = (None, s)) \<and>
   (\<not> window_defined s \<longrightarrow> tm_step x s = (None, s))"
proof -
  have 1: "paired s \<and> fst (tm_run xs s) = [] \<longrightarrow> paired (snd (tm_run xs s))"
    by (blast intro: paired_tm_run)
  have 2: "window_defined s \<and>
    setItem_error s (localStorage s) ACCESS_TOKEN_KEY a = None \<and>
    setItem_error s ((localStorage s)(ACCESS_TOKEN_KEY \<mapsto> a)) REFRESH_TOKEN_KEY r = None
      \<longrightarrow> tm_step (SetTokens a r) s =
            (None, s \<lparr> localStorage :=
                         (localStorage s)(ACCESS_TOKEN_KEY \<mapsto> a, REFRESH_TOKEN_KEY \<mapsto> r) \<rparr>)"
    by (simp add: setTokens_accepted)
  have 3: "window_defined s
      \<longrightarrow> tm_step ClearTokens s =
            (None, s \<lparr> localStorage :=
                         (localStorage s)(ACCESS_TOKEN_KEY := None, REFRESH_TOKEN_KEY := None) \<rparr>)"
    by (simp add: clearTokens_storage)
  have 4: "getRefreshToken s = Some t \<and> t \<noteq> []
      \<longrightarrow> (\<exists>resp. api t = Inr resp \<and>
             tm_step (RefreshAccessToken api) s =
               (None, s \<lparr> localStorage :=
                            (localStorage s)(ACCESS_TOKEN_KEY \<mapsto> access_token resp,
                                             REFRESH_TOKEN_KEY \<mapsto> refresh_token resp) \<rparr>)) \<or>
          tm_step (RefreshAccessToken api) s =
            (None, s \<lparr> localStorage :=
                         (localStorage s)(ACCESS_TOKEN_KEY := None, REFRESH_TOKEN_KEY := None) \<rparr>)"
  proof
    assume a: "getRefreshToken s = Some t \<and> t \<noteq> []"
    then have t: "getRefreshToken s = Some t" "t \<noteq> []" by simp_all
    show "(\<exists>resp. api t = Inr resp \<and>
             tm_step (RefreshAccessToken api) s =
               (None, s \<lparr> localStorage :=
                            (localStorage s)(ACCESS_TOKEN_KEY \<mapsto> access_token resp,
                                             REFRESH_TOKEN_KEY \<mapsto> refresh_token resp) \<rparr>)) \<or>
          tm_step (RefreshAccessToken api) s =
            (None, s \<lparr> localStorage :=
                         (localStorage s)(ACCESS_TOKEN_KEY := None, REFRESH_TOKEN_KEY := None) \<rparr>)"
    proof (cases "api t")
      case (Inl e)
      then show ?thesis using refresh_call_failed [of s t api e] t by simp
    next
      case (Inr resp)
      show ?thesis
      proof (cases "setItem_error s (localStorage s) ACCESS_TOKEN_KEY (access_token resp) = None \<and>
          setItem_error s ((localStorage s)(ACCESS_TOKEN_KEY \<mapsto> access_token resp))
            REFRESH_TOKEN_KEY (refresh_token resp) = None")
        case True
        then have "refreshAccessToken api s =
             (Some (access_token resp),
              s \<lparr> localStorage := (localStorage s)(ACCESS_TOKEN_KEY \<mapsto> access_token resp,
                                                    REFRESH_TOKEN_KEY \<mapsto> refresh_token resp) \<rparr>,
              [t])"
          using refresh_stored [of s t api resp] t Inr by blast
        with Inr show ?thesis by simp
      next
        case False
        then have "refreshAccessToken api s =
             (None,
              s \<lparr> localStorage := (localStorage s)(ACCESS_TOKEN_KEY := None,
                                                    REFRESH_TOKEN_KEY := None) \<rparr>,
              [t])"
          using refresh_write_failed [of s t api resp] t Inr by blast
        then show ?thesis by simp
      qed
    qed
  qed
  have 5: "getRefreshToken s = None \<or> getRefreshToken s = Some []
      \<longrightarrow> tm_step (RefreshAccessToken api) s = (None, s)"
    by (auto simp: refresh_nothing_stored)
  have 6: "\<not> window_defined s \<longrightarrow> tm_step x s = (None, s)"
    by (simp add: tm_step_no_window)
  from 1 2 3 4 5 6 show ?thesis by (intro conjI)
qed

text \<open>
  From an empty storage that accepts every write: store a pair, fail a refresh, store
  again, refresh with success. No call throws and the pair \<open>a2\<close>, \<open>r2\<close> is stored at the end.
\<close>

theorem token_pair_kept_together_witness:
  "paired (roomy_browser Map.empty) \<and>
   fst (tm_run
     [SetTokens ''a1'' ''r1'',
      RefreshAccessToken (\<lambda>t. Inl (TypeError ''Failed to fetch'')),
      SetTokens ''a3'' ''r3'',
      RefreshAccessToken (\<lambda>t. Inr new_tokens)]
     (roomy_browser Map.empty)) = [] \<and>
   paired (snd (tm_run
     [SetTokens ''a1'' ''r1'',
      RefreshAccessToken (\<lambda>t. Inl (TypeError ''Failed to fetch'')),
      SetTokens ''a3'' ''r3'',
      RefreshAccessToken (\<lambda>t. Inr new_tokens)]
     (roomy_browser Map.empty))) \<and>
   getAccessToken (snd (tm_run
     [SetTokens ''a1'' ''r1'',
      RefreshAccessToken (\<lambda>t. Inl (TypeError ''Failed to fetch'')),
      SetTokens ''a3'' ''r3'',
      RefreshAccessToken (\<lambda>t. Inr new_tokens)]
     (roomy_browser Map.empty))) = Some ''a2'' \<and>
   tm_step (SetTokens ''a1'' ''r1'') (roomy_browser Map.empty) =
     (None, roomy_browser [''access_token'' \<mapsto> ''a1'', ''refresh_token'' \<mapsto> ''r1''])"
  using token_pair_kept_together
    [of "roomy_browser Map.empty"
        "[SetTokens ''a1'' ''r1'',
          RefreshAccessToken (\<lambda>t. Inl (TypeError ''Failed to fetch'')),
          SetTokens ''a3'' ''r3'',
          RefreshAccessToken (\<lambda>t. Inr new_tokens)]"
        "''a1''" "''r1''" "''r1''" "\<lambda>t. Inr new_tokens" ClearTokens]
  by (simp add: paired_def roomy_browser_def new_tokens_def refreshAccessToken_def
      setTokens_def setItem_def clearTokens_def getRefreshToken_def getAccessToken_def
      ACCESS_TOKEN_KEY_def REFRESH_TOKEN_KEY_def)

text \<open>
  The claim as worded fails in a storage with room for one more item: \<open>setTokens\<close> stores
  the access token, the write of the refresh token throws, and the storage is left holding
  an access token with no refresh token.
\<close>

theorem setTokens_second_write_counterexample:
  "paired one_slot_browser \<and>
   fst (tm_run [SetTokens ''a1'' ''r1''] one_slot_browser) = [quota_exceeded] \<and>
   localStorage (snd (tm_run [SetTokens ''a1'' ''r1''] one_slot_browser)) ''access_token''
     = Some ''a1'' \<and>
   localStorage (snd (tm_run [SetTokens ''a1'' ''r1''] one_slot_browser)) ''refresh_token''
     = None \<and>
   \<not> paired (snd (tm_run [SetTokens ''a1'' ''r1''] one_slot_browser))"
  by (simp add: paired_def one_slot_browser_def setTokens_def setItem_def
      ACCESS_TOKEN_KEY_def REFRESH_TOKEN_KEY_def)

section \<open>The confirm-reset step\<close>

lemma otp_missing_fields:
  "calls (otp_missing p) = calls p" "signIns (otp_missing p) = signIns p"
  "sessionStorage (otp_missing p) = sessionStorage p" "email (otp_missing p) = email p"
  "toasts (otp_missing p) = toasts p @ [OtpNotVerified]"
  "pushes (otp_missing p) = pushes p @ [''/auth/verify-otp-reset'']"
  by (simp_all add: otp_missing_def router_push_def raise_toast_def)

lemma raise_toast_fields:
  "calls (raise_toast t p) = calls p" "signIns (raise_toast t p) = signIns p"
  "sessionStorage (raise_toast t p) = sessionStorage p" "email (raise_toast t p) = email p"
  "toasts (raise_toast t p) = toasts p @ [t]" "pushes (raise_toast t p) = pushes p"
  by (simp_all add: raise_toast_def)

text \<open>The submission stops at the first validation that fails, in the order of the list.\<close>

lemma rejected:
  assumes "first_failure p = Some v"
  shows "verifyResetPassword api signIn p =
           (if v = OtpPresent then otp_missing p else raise_toast (rejection_toast v) p)"
  using assms
  by (auto simp: first_failure_def validation_order_def verifyResetPassword_def
           split: if_splits option.splits)

text \<open>When all five pass, the backend is called and the outcome decides the branch.\<close>

lemma accepted:
  assumes "first_failure p = None"
  shows "\<exists>otp. sessionStorage p ''verified_otp'' = Some otp \<and> otp \<noteq> [] \<and>
          verifyResetPassword api signIn p =
            (let req = VerifyResetPasswordRequest (email p) otp (newPassword p);
                 p2 = p \<lparr> isVerifying := True, loading := True, calls := calls p @ [req] \<rparr>
             in (case api req of
                   Inr response \<Rightarrow> on_reset_success signIn response p2
                 | Inl error \<Rightarrow> on_reset_failure error p2)
                \<lparr> loading := False, isVerifying := False \<rparr>)"
proof -
  from assms have v: "email p \<noteq> []" "newPassword p \<noteq> []" "confirmPassword p \<noteq> []"
      "newPassword p = confirmPassword p" "\<not> length (newPassword p) < 6"
      "truthy_item (sessionStorage p ''verified_otp'')"
    by (auto simp: first_failure_def validation_order_def split: if_splits)
  then obtain otp where o: "sessionStorage p ''verified_otp'' = Some otp" "otp \<noteq> []"
    by (cases "sessionStorage p ''verified_otp''") auto
  with v show ?thesis
    by (simp add: verifyResetPassword_def Let_def split: sum.splits)
qed

lemma on_reset_success_calls: "calls (on_reset_success signIn response p) = calls p"
  by (simp add: on_reset_success_def Let_def router_push_def raise_toast_def removeItem_def
      split: sum.splits option.splits bool.splits)

lemma on_reset_failure_calls: "calls (on_reset_failure e p) = calls p"
  by (simp add: on_reset_failure_def Let_def raise_toast_def removeItem_def)

lemma rejected_fields:
  assumes f: "first_failure p = Some v"
  shows "calls (verifyResetPassword api signIn p) = calls p \<and>
      signIns (verifyResetPassword api signIn p) = signIns p \<and>
      sessionStorage (verifyResetPassword api signIn p) = sessionStorage p \<and>
      email (verifyResetPassword api signIn p) = email p \<and>
      toasts (verifyResetPassword api signIn p) = toasts p @ [rejection_toast v]"
  by (simp add: rejected [OF f] otp_missing_fields raise_toast_fields)

lemma accepted_call:
  assumes f: "first_failure p = None"
  shows "\<exists>otp. sessionStorage p ''verified_otp'' = Some otp \<and>
         calls (verifyResetPassword api signIn p) =
           calls p @ [VerifyResetPasswordRequest (email p) otp (newPassword p)]"
proof -
  from accepted [OF f, of api signIn] obtain otp where
    o: "sessionStorage p ''verified_otp'' = Some otp" and
    r: "verifyResetPassword api signIn p =
            (let req = VerifyResetPasswordRequest (email p) otp (newPassword p);
                 p2 = p \<lparr> isVerifying := True, loading := True, calls := calls p @ [req] \<rparr>
             in (case api req of
                   Inr response \<Rightarrow> on_reset_success signIn response p2
                 | Inl error \<Rightarrow> on_reset_failure error p2)
                \<lparr> loading := False, isVerifying := False \<rparr>)"
    by blast
  have "calls (verifyResetPassword api signIn p) =
           calls p @ [VerifyResetPasswordRequest (email p) otp (newPassword p)]"
    unfolding r
    by (simp add: Let_def on_reset_success_calls on_reset_failure_calls split: sum.splits)
  with o show ?thesis
    by blast
qed

text \<open>
  Claim C6. On a submission, the first of the five validations that fails, in the order
  email present, both passwords entered, passwords equal, at least six characters, verified
  OTP present, ends the submission with that validation's toast: the backend is not called,
  the session bridge is not called, and the flow state (the stored fields and the email the
  page holds) is as before. When none fails, the backend is called once, with the email, the
  stored OTP as \<open>otp_code\<close> and the new password.
\<close>

theorem local_validation_before_network:
  "(first_failure p = Some v \<longrightarrow>
      calls (verifyResetPassword api signIn p) = calls p \<and>
      signIns (verifyResetPassword api signIn p) = signIns p \<and>
      sessionStorage (verifyResetPassword api signIn p) = sessionStorage p \<and>
      email (verifyResetPassword api signIn p) = email p \<and>
      toasts (verifyResetPassword api signIn p) = toasts p @ [rejection_toast v]) \<and>
   (first_failure p = None \<longrightarrow>
      (\<exists>otp. sessionStorage p ''verified_otp'' = Some otp \<and>
         calls (verifyResetPassword api signIn p) =
           calls p @ [VerifyResetPasswordRequest (email p) otp (newPassword p)]))"
  using rejected_fields [of p v api signIn] accepted_call [of p api signIn]
  by blast

lemmas page_eval = typed_page_def mount_effect_def initial_page_def flow_store_def
  router_push_def raise_toast_def removeItem_def

text \<open>
  The specification's three examples (too short, mismatch, no OTP stored) and a submission
  that passes.
\<close>

theorem local_validation_before_network_witness:
  "calls (verifyResetPassword (\<lambda>q. Inr new_tokens) (\<lambda>c. Inr (Some True))
            (typed_page flow_store ''abc12'' ''abc12'')) = [] \<and>
   toasts (verifyResetPassword (\<lambda>q. Inr new_tokens) (\<lambda>c. Inr (Some True))
            (typed_page flow_store ''abc12'' ''abc12'')) = [PasswordTooShort] \<and>
   sessionStorage (verifyResetPassword (\<lambda>q. Inr new_tokens) (\<lambda>c. Inr (Some True))
            (typed_page flow_store ''abc12'' ''abc12'')) = flow_store \<and>
   calls (verifyResetPassword (\<lambda>q. Inr new_tokens) (\<lambda>c. Inr (Some True))
            (typed_page flow_store ''abcdef'' ''abcdeg'')) = [] \<and>
   toasts (verifyResetPassword (\<lambda>q. Inr new_tokens) (\<lambda>c. Inr (Some True))
            (typed_page flow_store ''abcdef'' ''abcdeg'')) = [PasswordMismatch] \<and>
   calls (verifyResetPassword (\<lambda>q. Inr new_tokens) (\<lambda>c. Inr (Some True))
            (typed_page [''reset_password_email'' \<mapsto> ''user@example.com''] ''abcdef'' ''abcdef'')) = [] \<and>
   toasts (verifyResetPassword (\<lambda>q. Inr new_tokens) (\<lambda>c. Inr (Some True))
            (typed_page [''reset_password_email'' \<mapsto> ''user@example.com''] ''abcdef'' ''abcdef''))
     = [OtpNotVerified] \<and>
   calls (verifyResetPassword (\<lambda>q. Inr new_tokens) (\<lambda>c. Inr (Some True))
            (typed_page flow_store ''abcdef'' ''abcdef''))
     = [VerifyResetPasswordRequest ''user@example.com'' ''123456'' ''abcdef'']"
  using
    local_validation_before_network
      [of "typed_page flow_store ''abc12'' ''abc12''" PasswordLongEnough
          "\<lambda>q. Inr new_tokens" "\<lambda>c. Inr (Some True)"]
    local_validation_before_network
      [of "typed_page flow_store ''abcdef'' ''abcdeg''" PasswordsEqual
          "\<lambda>q. Inr new_tokens" "\<lambda>c. Inr (Some True)"]
    local_validation_before_network
      [of "typed_page [''reset_password_email'' \<mapsto> ''user@example.com''] ''abcdef'' ''abcdef''"
          OtpPresent "\<lambda>q. Inr new_tokens" "\<lambda>c. Inr (Some True)"]
    local_validation_before_network
      [of "typed_page flow_store ''abcdef'' ''abcdef''" OtpPresent
          "\<lambda>q. Inr new_tokens" "\<lambda>c. Inr (Some True)"]
  by (simp add: first_failure_def validation_order_def page_eval)

subsection \<open>The backend rejects the reset\<close>

text \<open>
  Claim C8. When the validations pass and the backend call fails with an error that carries
  a message, \<open>verified_otp\<close> is removed and nothing else in the session storage changes
  (the email stays), the toast shows the error's message, no redirect is issued, and the page
  still shows the password form.
\<close>

theorem reset_failure_clears_only_otp:
  assumes "first_failure p = None"
    and "sessionStorage p ''verified_otp'' = Some otp"
    and "api (VerifyResetPasswordRequest (email p) otp (newPassword p)) = Inl e"
    and "error_message e = Some m"
  shows "sessionStorage (verifyResetPassword api signIn p) =
           (sessionStorage p)(''verified_otp'' := None) \<and>
         sessionStorage (verifyResetPassword api signIn p) ''reset_password_email'' =
           sessionStorage p ''reset_password_email'' \<and>
         toasts (verifyResetPassword api signIn p) = toasts p @ [VerificationFailed m] \<and>
         pushes (verifyResetPassword api signIn p) = pushes p \<and>
         render (verifyResetPassword api signIn p) = PasswordForm"
proof -
  from accepted [OF assms(1), of api signIn] assms(2,3)
  have r: "verifyResetPassword api signIn p =
      (on_reset_failure e
         (p \<lparr> isVerifying := True, loading := True,
              calls := calls p @ [VerifyResetPasswordRequest (email p) otp (newPassword p)] \<rparr>))
      \<lparr> loading := False, isVerifying := False \<rparr>"
    by (auto simp: Let_def)
  from assms(1) have "email p \<noteq> []"
    by (auto simp: first_failure_def validation_order_def split: if_splits)
  then show ?thesis
    unfolding r using assms(4)
    by (simp add: on_reset_failure_def Let_def raise_toast_def removeItem_def render_def)
qed

text \<open>With both fields stored and a backend that answers 400 \<open>Invalid OTP\<close>.\<close>

theorem reset_failure_clears_only_otp_witness:
  "first_failure (typed_page flow_store ''abcdef'' ''abcdef'') = None \<and>
   sessionStorage (typed_page flow_store ''abcdef'' ''abcdef'') ''verified_otp'' = Some ''123456'' \<and>
   sessionStorage (verifyResetPassword (\<lambda>q. Inl (ApiError ''Invalid OTP'' 400 (JObj [])))
       (\<lambda>c. Inr (Some True)) (typed_page flow_store ''abcdef'' ''abcdef'')) ''verified_otp'' = None \<and>
   sessionStorage (verifyResetPassword (\<lambda>q. Inl (ApiError ''Invalid OTP'' 400 (JObj [])))
       (\<lambda>c. Inr (Some True)) (typed_page flow_store ''abcdef'' ''abcdef'')) ''reset_password_email''
     = Some ''user@example.com'' \<and>
   toasts (verifyResetPassword (\<lambda>q. Inl (ApiError ''Invalid OTP'' 400 (JObj [])))
       (\<lambda>c. Inr (Some True)) (typed_page flow_store ''abcdef'' ''abcdef''))
     = [VerificationFailed ''Invalid OTP''] \<and>
   pushes (verifyResetPassword (\<lambda>q. Inl (ApiError ''Invalid OTP'' 400 (JObj [])))
       (\<lambda>c. Inr (Some True)) (typed_page flow_store ''abcdef'' ''abcdef'')) = []"
  using reset_failure_clears_only_otp
    [where p = "typed_page flow_store ''abcdef'' ''abcdef''" and otp = "''123456''"
       and api = "\<lambda>q. Inl (ApiError ''Invalid OTP'' 400 (JObj []))"
       and e = "ApiError ''Invalid OTP'' 400 (JObj [])" and m = "''Invalid OTP''"
       and signIn = "\<lambda>c. Inr (Some True)"]
  by (simp add: first_failure_def validation_order_def page_eval)

subsection \<open>The backend accepts the reset\<close>

text \<open>
  Both flow-state fields are removed before the session bridge is called, whatever the
  bridge then does, and no failure toast is raised.
\<close>

lemma reset_success_clears_flow_state:
  assumes "first_failure p = None"
    and "sessionStorage p ''verified_otp'' = Some otp"
    and "api (VerifyResetPasswordRequest (email p) otp (newPassword p)) = Inr resp"
  shows "sessionStorage (verifyResetPassword api signIn p) =
           (sessionStorage p)(''reset_password_email'' := None, ''verified_otp'' := None) \<and>
         signIns (verifyResetPassword api signIn p) =
           signIns p @ [(access_token resp, refresh_token resp)] \<and>
         (toasts (verifyResetPassword api signIn p) = toasts p @ [ResetSucceeded] \<or>
          toasts (verifyResetPassword api signIn p) =
            toasts p @ [ResetSucceeded, ResetSucceededPleaseLogin])"
proof -
  from accepted [OF assms(1), of api signIn] assms(2,3)
  have r: "verifyResetPassword api signIn p =
      (on_reset_success signIn resp
         (p \<lparr> isVerifying := True, loading := True,
              calls := calls p @ [VerifyResetPasswordRequest (email p) otp (newPassword p)] \<rparr>))
      \<lparr> loading := False, isVerifying := False \<rparr>"
    by (auto simp: Let_def)
  show ?thesis
    unfolding r
    by (simp add: on_reset_success_def Let_def raise_toast_def removeItem_def router_push_def
        split: sum.splits option.splits bool.splits)
qed

text \<open>
  Claim C7. After a successful reset both fields are gone in every case, and a failed
  auto-login is reported as a successful reset. But the two failure paths do not go to the
  same place: when the session bridge throws, the page pushes \<open>/auth/login\<close>; when it
  resolves without \<open>ok\<close> (or to nothing), the page pushes \<open>auth/login\<close>, with no leading
  slash, a path relative to the current route rather than the login page's.
\<close>

theorem auto_login_failure_pushes_relative_path:
  "pushes (verifyResetPassword (\<lambda>q. Inr new_tokens) (\<lambda>c. Inr (Some False))
             (typed_page flow_store ''abcdef'' ''abcdef'')) = [''auth/login''] \<and>
   pushes (verifyResetPassword (\<lambda>q. Inr new_tokens) (\<lambda>c. Inr None)
             (typed_page flow_store ''abcdef'' ''abcdef'')) = [''auth/login''] \<and>
   pushes (verifyResetPassword (\<lambda>q. Inr new_tokens) (\<lambda>c. Inl (TypeError ''Failed to fetch''))
             (typed_page flow_store ''abcdef'' ''abcdef'')) = [''/auth/login''] \<and>
   toasts (verifyResetPassword (\<lambda>q. Inr new_tokens) (\<lambda>c. Inr (Some False))
             (typed_page flow_store ''abcdef'' ''abcdef''))
     = [ResetSucceeded, ResetSucceededPleaseLogin] \<and>
   sessionStorage (verifyResetPassword (\<lambda>q. Inr new_tokens) (\<lambda>c. Inr (Some False))
             (typed_page flow_store ''abcdef'' ''abcdef'')) ''reset_password_email'' = None \<and>
   sessionStorage (verifyResetPassword (\<lambda>q. Inr new_tokens) (\<lambda>c. Inr (Some False))
             (typed_page flow_store ''abcdef'' ''abcdef'')) ''verified_otp'' = None"
  by (simp add: verifyResetPassword_def on_reset_success_def page_eval new_tokens_def)

subsection \<open>The guard on entry\<close>

text \<open>Each missing field adds its own redirect, the email's first.\<close>

lemma mount_effect_pushes:
  "pushes (mount_effect (initial_page store)) =
     (if truthy_item (store ''reset_password_email'') then [] else [''/auth/reset-password'']) @
     (if truthy_item (store ''verified_otp'') then [] else [''/auth/verify-otp-reset''])"
  by (auto simp: mount_effect_def initial_page_def router_push_def Let_def split: option.splits)

text \<open>
  Claim C9. The first render shows the placeholder, not the form, and the guard runs after
  it. With only the email missing the guard pushes the request-reset step, and with only
  the OTP missing the OTP step. With both missing it pushes the request-reset step and then,
  since the second test is not skipped, the OTP step as well: the redirect issued last is
  not the earliest unmet step.
\<close>

theorem mount_guard_pushes_both:
  "render (initial_page Map.empty) = LoadingPlaceholder \<and>
   pushes (mount_effect (initial_page Map.empty))
     = [''/auth/reset-password'', ''/auth/verify-otp-reset''] \<and>
   last (pushes (mount_effect (initial_page Map.empty))) = ''/auth/verify-otp-reset'' \<and>
   pushes (mount_effect (initial_page [''verified_otp'' \<mapsto> ''123456'']))
     = [''/auth/reset-password''] \<and>
   pushes (mount_effect (initial_page [''reset_password_email'' \<mapsto> ''user@example.com'']))
     = [''/auth/verify-otp-reset'']"
  by (simp add: mount_effect_def initial_page_def router_push_def render_def)

end
